theory Spec2Isabelle
  imports Main
begin

section \<open>Data model\<close>

text \<open>
  A shallow embedding of \<^verbatim>\<open>server/routes.ts\<close>. The file registers the HTTP routes of the
  credential vault and holds the login rate limiter. The modules it imports
  (\<^verbatim>\<open>./storage\<close>, \<^verbatim>\<open>./auth\<close>, \<^verbatim>\<open>./utils\<close>, \<^verbatim>\<open>@shared/schema\<close>) are not part of the
  sources at hand: the schemas, the strength scorer and the authentication functions are
  parameters of the model (record \<open>deps\<close>), and the storage layer is modelled from the
  specification (section ``Storage'').
\<close>

text \<open>Request bodies are JSON values.\<close>

datatype json =
  JNull | JBool bool | JNum int | JStr string | JArr "json list" | JObj "(string \<times> json) list"

text \<open>
  The parts of an Express request the routes read: the two headers, \<^verbatim>\<open>req.ip\<close>,
  \<^verbatim>\<open>req.session.userId\<close>, \<^verbatim>\<open>req.params.id\<close> and \<^verbatim>\<open>req.body\<close>.
\<close>

record request =
  x_forwarded_for :: "string option"
  user_agent :: "string option"
  req_ip :: "string option"
  session_userId :: "int option"
  params_id :: string
  body :: json

text \<open>A stored credential entry; \<open>insertPassword\<close> is what \<^verbatim>\<open>insertPasswordSchema\<close> yields.\<close>

record insertPassword =
  title :: string
  encryptedPassword :: string

record passwordData = insertPassword +
  strength :: int

record password = passwordData +
  pw_id :: int
  pw_userId :: int

text \<open>
  What \<^verbatim>\<open>updatePasswordSchema\<close> yields (every field optional), and the same with the
  \<^verbatim>\<open>strength\<close> key the PUT handler may add.
\<close>

record updatePassword =
  u_title :: "string option"
  u_encryptedPassword :: "string option"

record updateData = updatePassword +
  u_strength :: "int option"

record insertActivityLog =
  userId :: int
  action :: string
  details :: string
  ipAddress :: string
  userAgent :: string

record activityLog = insertActivityLog +
  timestamp :: int

record securityAlert =
  al_id :: int
  al_userId :: int
  al_kind :: string
  isResolved :: bool

record passwordStats =
  total :: nat
  strong :: nat
  weak :: nat

record passwordGenerator =
  g_length :: int
  includeUppercase :: bool
  includeLowercase :: bool
  includeNumbers :: bool
  includeSymbols :: bool

datatype payload =
    Message string
  | PasswordsJson "password list"
  | PasswordJson password
  | StatsJson passwordStats
  | AlertsJson "securityAlert list"
  | LogsJson "activityLog list"
  | GeneratedJson string int
  | HealthJson
  | OtherJson json

datatype response = Response nat payload

fun status :: "response \<Rightarrow> nat" where
  "status (Response st p) = st"

text \<open>A call either returns or throws (a rejected promise under \<^verbatim>\<open>await\<close>).\<close>

datatype 'a thrown = Returns 'a | Throws

text \<open>
  Every call the routes make to the storage layer or to an authentication function. The list
  of calls made while serving requests is kept in the state, so that ``was never invoked''
  is a statement about that list.
\<close>

datatype call =
    Login request
  | Register request
  | Logout request
  | GetCurrentUser request
  | GetPasswordsByUserId int
  | GetPasswordById int int
  | CreatePassword "passwordData" int
  | UpdatePassword int int "updateData"
  | DeletePassword int int
  | CreateActivityLog "insertActivityLog"
  | GetPasswordStats int
  | GetSecurityAlertsByUserId int
  | ResolveSecurityAlert int int
  | GetActivityLogsByUserId int int

text \<open>
  The imports of \<^verbatim>\<open>routes.ts\<close> whose code is not at hand, as parameters. A schema's
  \<^verbatim>\<open>safeParse\<close> gives the first error message (\<open>Inl\<close>) or the parsed data (\<open>Inr\<close>).
  \<open>login\<close> and its siblings answer the request themselves; their effect on sessions and
  users is outside the model, only their invocation is recorded. \<open>storageRaises\<close> says which
  storage calls fail with an exception. \<open>weakMax\<close> and \<open>strongMin\<close> are the thresholds of the
  statistics.
\<close>

record deps =
  loginUserSchema :: "json \<Rightarrow> string + unit"
  insertUserSchema :: "json \<Rightarrow> string + (string \<times> string)"
  insertPasswordSchema :: "json \<Rightarrow> string + insertPassword"
  updatePasswordSchema :: "json \<Rightarrow> string + updatePassword"
  passwordGeneratorSchema :: "json \<Rightarrow> string + passwordGenerator"
  calculatePasswordStrength :: "string \<Rightarrow> int"
  generatePasswordUtil :: "passwordGenerator \<Rightarrow> string thrown"
  isValidEmail :: "string \<Rightarrow> bool"
  isStrongPassword :: "string \<Rightarrow> bool"
  isAuthenticated :: "request \<Rightarrow> bool"
  login :: "request \<Rightarrow> response thrown"
  register :: "request \<Rightarrow> response thrown"
  logout :: "request \<Rightarrow> response thrown"
  getCurrentUser :: "request \<Rightarrow> response thrown"
  storageRaises :: "call \<Rightarrow> bool"
  weakMax :: int
  strongMin :: int

section \<open>State\<close>

text \<open>
  \<^verbatim>\<open>loginAttempts\<close> is the module-level table of the rate limiter, keyed by client identity.
  It is modelled as a map from keys to entries: a key that names a property every JavaScript
  object inherits (\<^verbatim>\<open>constructor\<close>, \<^verbatim>\<open>toString\<close>, \<dots>) is outside the model.
  The counter only ever takes the values \<open>0, 1, 2, \<dots>\<close> (it is set to 0 and incremented),
  so it is a natural number; times are milliseconds as \<^verbatim>\<open>Date.now()\<close> gives them.
\<close>

record attemptInfo =
  count :: nat
  lastAttempt :: int

record db =
  passwords :: "password list"
  securityAlerts :: "securityAlert list"
  activityLogs :: "activityLog list"
  nextPasswordId :: int

record state =
  loginAttempts :: "string \<rightharpoonup> attemptInfo"
  storage :: db
  calls :: "call list"

definition MAX_ATTEMPTS :: nat where
  "MAX_ATTEMPTS = 5"

definition BLOCK_TIME_MS :: int where
  "BLOCK_TIME_MS = 15 * 60 * 1000"

definition handleServerError :: "string \<Rightarrow> response" where
  "handleServerError message = Response 500 (Message message)"

section \<open>The login rate limiter and the login route\<close>

text \<open>
  \<^verbatim>\<open>req.headers["x-forwarded-for"] || req.ip\<close>: the header unless it is absent or empty;
  when \<^verbatim>\<open>req.ip\<close> is undefined too, the table is indexed with the key \<^verbatim>\<open>"undefined"\<close>.
\<close>

definition forwardedOrIp :: "request \<Rightarrow> string option" where
  "forwardedOrIp req =
     (case x_forwarded_for req of
        Some h \<Rightarrow> if h \<noteq> [] then Some h else req_ip req
      | None \<Rightarrow> req_ip req)"

definition clientIp :: "request \<Rightarrow> string" where
  "clientIp req = (case forwardedOrIp req of Some a \<Rightarrow> a | None \<Rightarrow> ''undefined'')"

text \<open>A middleware answers the request itself or hands it on with \<^verbatim>\<open>next()\<close>.\<close>

datatype gate = Rejected response | Next

definition loginRateLimiter :: "int \<Rightarrow> request \<Rightarrow> state \<Rightarrow> gate \<times> state" where
  "loginRateLimiter now req s =
     (let ip = clientIp req;
          attemptInfo0 = (case loginAttempts s ip of
                            None \<Rightarrow> \<lparr>count = 0, lastAttempt = now\<rparr>
                          | Some a \<Rightarrow> a);
          attemptInfo1 = (if now - lastAttempt attemptInfo0 > BLOCK_TIME_MS
                          then attemptInfo0\<lparr>count := 0\<rparr> else attemptInfo0);
          attemptInfo2 = attemptInfo1\<lparr>lastAttempt := now\<rparr>;
          s1 = s\<lparr>loginAttempts := (loginAttempts s)(ip \<mapsto> attemptInfo2)\<rparr>
      in if count attemptInfo2 \<ge> MAX_ATTEMPTS
         then (Rejected (Response 429
                 (Message ''Too many login attempts. Please try again after 15 minutes.'')), s1)
         else (Next, s1))"

text \<open>
  \<^verbatim>\<open>res.locals.loginAttemptInfo\<close> is the very object stored in the table under the client's
  key, so the handler's writes to it are writes to the table entry.
\<close>

definition setCount :: "string \<Rightarrow> (nat \<Rightarrow> nat) \<Rightarrow> state \<Rightarrow> state" where
  "setCount ip f s =
     (case loginAttempts s ip of
        None \<Rightarrow> s
      | Some a \<Rightarrow> s\<lparr>loginAttempts := (loginAttempts s)(ip \<mapsto> a\<lparr>count := f (count a)\<rparr>)\<rparr>)"

definition loginHandler :: "deps \<Rightarrow> request \<Rightarrow> state \<Rightarrow> response \<times> state" where
  "loginHandler D req s =
     (case loginUserSchema D (body req) of
        Inl message \<Rightarrow> (Response 400 (Message message), s)
      | Inr _ \<Rightarrow>
          (let s1 = s\<lparr>calls := calls s @ [Login req]\<rparr>
           in case login D req of
                Returns r \<Rightarrow> (r, setCount (clientIp req) (\<lambda>c. 0) s1)
              | Throws \<Rightarrow>
                  (handleServerError ''An error occurred during login'',
                   setCount (clientIp req) (\<lambda>c. c + 1) s1)))"

definition loginRoute :: "deps \<Rightarrow> int \<Rightarrow> request \<Rightarrow> state \<Rightarrow> response \<times> state" where
  "loginRoute D now req s =
     (case loginRateLimiter now req s of
        (Rejected r, s1) \<Rightarrow> (r, s1)
      | (Next, s1) \<Rightarrow> loginHandler D req s1)"

section \<open>\<^verbatim>\<open>parseInt\<close>\<close>

text \<open>
  JavaScript's \<^verbatim>\<open>parseInt(string)\<close> with no radix: leading white space is skipped, a sign
  is read, a \<^verbatim>\<open>0x\<close> prefix selects base 16, and the longest run of digits is converted;
  no digit at all gives \<^verbatim>\<open>NaN\<close>, here \<open>None\<close>. The value is kept exact (a JavaScript number
  rounds beyond \<open>2\<^sup>5\<^sup>3\<close>, which changes neither its sign nor whether it is \<^verbatim>\<open>NaN\<close>);
  white space is the ASCII part of the language's list.
\<close>

definition isWhiteSpace :: "char \<Rightarrow> bool" where
  "isWhiteSpace c = (of_char c \<in> set [9, 10, 11, 12, 13, 32 :: nat])"

definition digitValue :: "char \<Rightarrow> nat" where
  "digitValue c =
     (let n = (of_char c :: nat)
      in if 48 \<le> n \<and> n \<le> 57 then n - 48
         else if 97 \<le> n \<and> n \<le> 122 then n - 87
         else if 65 \<le> n \<and> n \<le> 90 then n - 55
         else 36)"

definition parseInt :: "string \<Rightarrow> int option" where
  "parseInt str =
     (let s1 = dropWhile isWhiteSpace str;
          negative = (case s1 of c # r \<Rightarrow> c = CHR ''-'' | [] \<Rightarrow> False);
          s2 = (case s1 of c # r \<Rightarrow> if c = CHR ''-'' \<or> c = CHR ''+'' then r else s1 | [] \<Rightarrow> s1);
          hex = (case s2 of a # b # r \<Rightarrow> a = CHR ''0'' \<and> (b = CHR ''x'' \<or> b = CHR ''X'') | _ \<Rightarrow> False);
          radix = (if hex then 16 else 10 :: nat);
          s3 = (if hex then drop 2 s2 else s2);
          ds = takeWhile (\<lambda>c. digitValue c < radix) s3;
          n = int (foldl (\<lambda>a c. a * radix + digitValue c) 0 ds)
      in if ds = [] then None else Some (if negative then - n else n))"

text \<open>
  \<^verbatim>\<open>isNaN(id) || id <= 0\<close>: the identifier the handlers go on with, or \<open>None\<close> when they
  answer 400.
\<close>

definition validId :: "string \<Rightarrow> int option" where
  "validId str =
     (case parseInt str of
        None \<Rightarrow> None
      | Some n \<Rightarrow> if n \<le> 0 then None else Some n)"

text \<open>The decimal text of an identifier in a template string.\<close>

fun showNat :: "nat \<Rightarrow> string" where
  "showNat n =
     (if n < 10 then [char_of (48 + n)] else showNat (n div 10) @ [char_of (48 + n mod 10)])"

definition showInt :: "int \<Rightarrow> string" where
  "showInt i = (if i < 0 then CHR ''-'' # showNat (nat (- i)) else showNat (nat i))"

section \<open>Storage\<close>

text \<open>
  Modelled from the spec: \<^verbatim>\<open>storage.getPasswordsByUserId\<close> (the code of \<^verbatim>\<open>./storage\<close> is
  missing). ``\<open>list(userId)\<close>: sequence of CredentialEntry ordered by insertion'', every
  query filtered by the owner.
\<close>

definition getPasswordsByUserId :: "db \<Rightarrow> int \<Rightarrow> password list" where
  "getPasswordsByUserId d uid = filter (\<lambda>p. pw_userId p = uid) (passwords d)"

text \<open>
  Modelled from the spec: \<^verbatim>\<open>storage.getPasswordById\<close> (missing). ``\<open>get(entryId, userId)\<close>:
  CredentialEntry or not-found'', an entry of another owner being not found.
\<close>

definition owned :: "int \<Rightarrow> int \<Rightarrow> password \<Rightarrow> bool" where
  "owned pid uid p = (pw_id p = pid \<and> pw_userId p = uid)"

definition getPasswordById :: "db \<Rightarrow> int \<Rightarrow> int \<Rightarrow> password option" where
  "getPasswordById d pid uid = find (owned pid uid) (passwords d)"

text \<open>
  Modelled from the spec: \<^verbatim>\<open>storage.createPassword\<close> (missing). ``persists the entry'' with
  the strength handed in, under a fresh identifier, and returns it.
\<close>

definition createPassword :: "db \<Rightarrow> passwordData \<Rightarrow> int \<Rightarrow> password \<times> db" where
  "createPassword d pd uid =
     (let p = \<lparr>title = title pd, encryptedPassword = encryptedPassword pd,
               strength = strength pd, pw_id = nextPasswordId d, pw_userId = uid\<rparr>
      in (p, d\<lparr>passwords := passwords d @ [p], nextPasswordId := nextPasswordId d + 1\<rparr>))"

text \<open>
  Modelled from the spec: \<^verbatim>\<open>storage.updatePassword\<close> (missing).
  ``\<open>update(entryId, userId, partialFields)\<close>: CredentialEntry or not-found'': the fields
  present in the partial record overwrite the entry's, the others stay.
\<close>

definition applyUpdate :: "updateData \<Rightarrow> password \<Rightarrow> password" where
  "applyUpdate u p =
     p\<lparr>title := (case u_title u of Some t \<Rightarrow> t | None \<Rightarrow> title p),
       encryptedPassword := (case u_encryptedPassword u of Some e \<Rightarrow> e | None \<Rightarrow> encryptedPassword p),
       strength := (case u_strength u of Some n \<Rightarrow> n | None \<Rightarrow> strength p)\<rparr>"

definition updatePassword :: "db \<Rightarrow> int \<Rightarrow> int \<Rightarrow> updateData \<Rightarrow> password option \<times> db" where
  "updatePassword d pid uid u =
     (case getPasswordById d pid uid of
        None \<Rightarrow> (None, d)
      | Some p \<Rightarrow>
          (Some (applyUpdate u p),
           d\<lparr>passwords := map (\<lambda>q. if owned pid uid q then applyUpdate u q else q) (passwords d)\<rparr>))"

text \<open>
  Modelled from the spec: \<^verbatim>\<open>storage.deletePassword\<close> (missing).
  ``removes the entry only if owned by \<open>userId\<close>; returns false (no error) if not found
  or not owned''.
\<close>

definition deletePassword :: "db \<Rightarrow> int \<Rightarrow> int \<Rightarrow> bool \<times> db" where
  "deletePassword d pid uid =
     (case getPasswordById d pid uid of
        None \<Rightarrow> (False, d)
      | Some p \<Rightarrow> (True, d\<lparr>passwords := filter (\<lambda>q. \<not> owned pid uid q) (passwords d)\<rparr>))"

text \<open>
  Modelled from the spec: \<^verbatim>\<open>storage.createActivityLog\<close> (missing). ``append-only record of
  one mutation (action kind, human-readable detail, originating address, client agent,
  timestamp)''; the storage layer stamps the entry with the current time.
\<close>

definition createActivityLog :: "db \<Rightarrow> int \<Rightarrow> insertActivityLog \<Rightarrow> activityLog \<times> db" where
  "createActivityLog d now l =
     (let e = \<lparr>userId = userId l, action = action l, details = details l,
               ipAddress = ipAddress l, userAgent = userAgent l, timestamp = now\<rparr>
      in (e, d\<lparr>activityLogs := activityLogs d @ [e]\<rparr>))"

text \<open>
  Modelled from the spec: \<^verbatim>\<open>storage.getActivityLogsByUserId\<close> (missing).
  ``\<open>ListActivity(userId, limit)\<close>: sequence of ActivityLogEntry, most-recent-first'',
  ``bounded by a caller-supplied limit''. Among entries of one timestamp the one appended
  later comes first.
\<close>

definition getActivityLogsByUserId :: "db \<Rightarrow> int \<Rightarrow> int \<Rightarrow> activityLog list" where
  "getActivityLogsByUserId d uid limit =
     take (nat limit) (rev (sort_key timestamp (filter (\<lambda>l. userId l = uid) (activityLogs d))))"

text \<open>
  Modelled from the spec: \<^verbatim>\<open>storage.getPasswordStats\<close> (missing). ``\<open>total\<close>, \<open>strong\<close>
  (count above the strong threshold), \<open>weak\<close> (count below the weak threshold)'', raw
  counts over the user's entries; scores 10, 60, 95 under \<open>WEAK_MAX = 39\<close> and
  \<open>STRONG_MIN = 70\<close> give one weak and one strong entry.
\<close>

definition getPasswordStats :: "int \<Rightarrow> int \<Rightarrow> db \<Rightarrow> int \<Rightarrow> passwordStats" where
  "getPasswordStats wmax smin d uid =
     (let ps = getPasswordsByUserId d uid
      in \<lparr>total = length ps,
          strong = length (filter (\<lambda>p. smin \<le> strength p) ps),
          weak = length (filter (\<lambda>p. strength p \<le> wmax) ps)\<rparr>)"

text \<open>
  Modelled from the spec: \<^verbatim>\<open>storage.getSecurityAlertsByUserId\<close> (missing).
  ``\<open>listAll(userId)\<close>'': the dashboard that consumes the endpoint filters the unresolved
  alerts itself.
\<close>

definition getSecurityAlertsByUserId :: "db \<Rightarrow> int \<Rightarrow> securityAlert list" where
  "getSecurityAlertsByUserId d uid = filter (\<lambda>a. al_userId a = uid) (securityAlerts d)"

text \<open>
  Modelled from the spec: \<^verbatim>\<open>storage.resolveSecurityAlert\<close> (missing).
  ``sets \<open>resolved = true\<close> exactly once; resolving an already-resolved or non-owned or
  nonexistent alert returns false without error''.
\<close>

definition resolvable :: "int \<Rightarrow> int \<Rightarrow> securityAlert \<Rightarrow> bool" where
  "resolvable aid uid a = (al_id a = aid \<and> al_userId a = uid \<and> \<not> isResolved a)"

definition resolveSecurityAlert :: "db \<Rightarrow> int \<Rightarrow> int \<Rightarrow> bool \<times> db" where
  "resolveSecurityAlert d aid uid =
     (if list_ex (resolvable aid uid) (securityAlerts d)
      then (True, d\<lparr>securityAlerts :=
              map (\<lambda>a. if resolvable aid uid a then a\<lparr>isResolved := True\<rparr> else a) (securityAlerts d)\<rparr>)
      else (False, d))"

text \<open>
  A call to the storage layer: it is recorded, and it either throws, leaving the store as
  it was, or runs the operation.
\<close>

definition invoke :: "deps \<Rightarrow> call \<Rightarrow> (db \<Rightarrow> 'a \<times> db) \<Rightarrow> state \<Rightarrow> 'a thrown \<times> state" where
  "invoke D c f s =
     (let s1 = s\<lparr>calls := calls s @ [c]\<rparr>
      in if storageRaises D c then (Throws, s1)
         else (case f (storage s1) of (r, d) \<Rightarrow> (Returns r, s1\<lparr>storage := d\<rparr>)))"

text \<open>The same for an authentication function, which answers the request itself.\<close>

definition delegate :: "call \<Rightarrow> response thrown \<Rightarrow> string \<Rightarrow> state \<Rightarrow> response \<times> state" where
  "delegate c r message s =
     (let s1 = s\<lparr>calls := calls s @ [c]\<rparr>
      in case r of Returns a \<Rightarrow> (a, s1) | Throws \<Rightarrow> (handleServerError message, s1))"

section \<open>The routes\<close>

text \<open>
  Modelled from the spec: the rejection of the \<^verbatim>\<open>isAuthenticated\<close> middleware (the code of
  \<^verbatim>\<open>./auth\<close> is missing). ``Unauthorized (no resolved identity): rejected before any store
  access''; the answer is the one the handlers give themselves when the session has no user.
\<close>

definition unauthorized :: response where
  "unauthorized = Response 401 (Message ''Unauthorized'')"

text \<open>
  \<^verbatim>\<open>const userId = req.session.userId; if (!userId) return 401\<close>: an absent identifier and
  the identifier 0 are both falsy.
\<close>

definition sessionUser :: "request \<Rightarrow> int option" where
  "sessionUser req =
     (case session_userId req of
        None \<Rightarrow> None
      | Some u \<Rightarrow> if u = 0 then None else Some u)"

text \<open>
  The common head of the protected routes: the middleware, then the handler's own test of
  the session.
\<close>

definition authenticated :: "deps \<Rightarrow> request \<Rightarrow> int option" where
  "authenticated D req = (if isAuthenticated D req then sessionUser req else None)"

text \<open>
  \<^verbatim>\<open>(req.headers["x-forwarded-for"] || req.ip) as string || ""\<close> and
  \<^verbatim>\<open>req.headers["user-agent"] || ""\<close>.
\<close>

definition logEntry :: "request \<Rightarrow> int \<Rightarrow> string \<Rightarrow> string \<Rightarrow> insertActivityLog" where
  "logEntry req uid act det =
     \<lparr>userId = uid, action = act, details = det,
      ipAddress = (case forwardedOrIp req of Some a \<Rightarrow> a | None \<Rightarrow> []),
      userAgent = (case user_agent req of Some a \<Rightarrow> a | None \<Rightarrow> [])\<rparr>"

definition logActivity ::
  "deps \<Rightarrow> int \<Rightarrow> insertActivityLog \<Rightarrow> state \<Rightarrow> activityLog thrown \<times> state" where
  "logActivity D now l s = invoke D (CreateActivityLog l) (\<lambda>d. createActivityLog d now l) s"

definition registerHandler :: "deps \<Rightarrow> request \<Rightarrow> state \<Rightarrow> response \<times> state" where
  "registerHandler D req s =
     (case insertUserSchema D (body req) of
        Inl message \<Rightarrow> (Response 400 (Message message), s)
      | Inr (email, pass) \<Rightarrow>
          if \<not> isValidEmail D email then (Response 400 (Message ''Invalid email format''), s)
          else if \<not> isStrongPassword D pass
          then (Response 400 (Message
                  ''Password is too weak. It must have uppercase, lowercase, numbers, symbols and be at least 8 characters long.''), s)
          else delegate (Register req) (register D req) ''An error occurred during registration'' s)"

definition logoutHandler :: "deps \<Rightarrow> request \<Rightarrow> state \<Rightarrow> response \<times> state" where
  "logoutHandler D req s = delegate (Logout req) (logout D req) ''Failed to logout'' s"

definition meHandler :: "deps \<Rightarrow> request \<Rightarrow> state \<Rightarrow> response \<times> state" where
  "meHandler D req s =
     delegate (GetCurrentUser req) (getCurrentUser D req) ''Failed to get current user'' s"

definition listPasswordsHandler :: "deps \<Rightarrow> request \<Rightarrow> state \<Rightarrow> response \<times> state" where
  "listPasswordsHandler D req s =
     (case authenticated D req of
        None \<Rightarrow> (unauthorized, s)
      | Some uid \<Rightarrow>
          (case invoke D (GetPasswordsByUserId uid) (\<lambda>d. (getPasswordsByUserId d uid, d)) s of
             (Throws, s1) \<Rightarrow> (handleServerError ''Failed to retrieve passwords'', s1)
           | (Returns ps, s1) \<Rightarrow> (Response 200 (PasswordsJson ps), s1)))"

definition getPasswordHandler :: "deps \<Rightarrow> request \<Rightarrow> state \<Rightarrow> response \<times> state" where
  "getPasswordHandler D req s =
     (case authenticated D req of
        None \<Rightarrow> (unauthorized, s)
      | Some uid \<Rightarrow>
          (case validId (params_id req) of
             None \<Rightarrow> (Response 400 (Message ''Invalid password ID''), s)
           | Some passwordId \<Rightarrow>
               (case invoke D (GetPasswordById passwordId uid)
                             (\<lambda>d. (getPasswordById d passwordId uid, d)) s of
                  (Throws, s1) \<Rightarrow> (handleServerError ''Failed to retrieve password'', s1)
                | (Returns None, s1) \<Rightarrow> (Response 404 (Message ''Password not found''), s1)
                | (Returns (Some p), s1) \<Rightarrow> (Response 200 (PasswordJson p), s1))))"

definition createPasswordHandler ::
  "deps \<Rightarrow> int \<Rightarrow> request \<Rightarrow> state \<Rightarrow> response \<times> state" where
  "createPasswordHandler D now req s =
     (case authenticated D req of
        None \<Rightarrow> (unauthorized, s)
      | Some uid \<Rightarrow>
          (case insertPasswordSchema D (body req) of
             Inl message \<Rightarrow> (Response 400 (Message message), s)
           | Inr dat \<Rightarrow>
               (let passwordData =
                      \<lparr>title = title dat, encryptedPassword = encryptedPassword dat,
                       strength = calculatePasswordStrength D (encryptedPassword dat)\<rparr>
                in case invoke D (CreatePassword passwordData uid)
                                 (\<lambda>d. createPassword d passwordData uid) s of
                     (Throws, s1) \<Rightarrow> (handleServerError ''Failed to create password'', s1)
                   | (Returns newPassword, s1) \<Rightarrow>
                       (case logActivity D now
                               (logEntry req uid ''create_password''
                                  (''Created password for '' @ title newPassword)) s1 of
                          (Throws, s2) \<Rightarrow> (handleServerError ''Failed to create password'', s2)
                        | (Returns l, s2) \<Rightarrow> (Response 201 (PasswordJson newPassword), s2)))))"

text \<open>
  \<^verbatim>\<open>if (result.data.encryptedPassword)\<close> is a test for truthiness: it fails when the key is
  absent and also when its value is the empty string.
\<close>

definition withStrength :: "deps \<Rightarrow> updatePassword \<Rightarrow> updateData" where
  "withStrength D dat =
     (case u_encryptedPassword dat of
        None \<Rightarrow> \<lparr>u_title = u_title dat, u_encryptedPassword = None, u_strength = None\<rparr>
      | Some e \<Rightarrow>
          if e \<noteq> []
          then \<lparr>u_title = u_title dat, u_encryptedPassword = Some e,
                u_strength = Some (calculatePasswordStrength D e)\<rparr>
          else \<lparr>u_title = u_title dat, u_encryptedPassword = Some e, u_strength = None\<rparr>)"

definition updatePasswordHandler ::
  "deps \<Rightarrow> int \<Rightarrow> request \<Rightarrow> state \<Rightarrow> response \<times> state" where
  "updatePasswordHandler D now req s =
     (case authenticated D req of
        None \<Rightarrow> (unauthorized, s)
      | Some uid \<Rightarrow>
          (case validId (params_id req) of
             None \<Rightarrow> (Response 400 (Message ''Invalid password ID''), s)
           | Some passwordId \<Rightarrow>
               (case updatePasswordSchema D (body req) of
                  Inl message \<Rightarrow> (Response 400 (Message message), s)
                | Inr dat \<Rightarrow>
                    (let updateData = withStrength D dat
                     in case invoke D (UpdatePassword passwordId uid updateData)
                                      (\<lambda>d. updatePassword d passwordId uid updateData) s of
                          (Throws, s1) \<Rightarrow> (handleServerError ''Failed to update password'', s1)
                        | (Returns None, s1) \<Rightarrow> (Response 404 (Message ''Password not found''), s1)
                        | (Returns (Some updatedPassword), s1) \<Rightarrow>
                            (case logActivity D now
                                    (logEntry req uid ''update_password''
                                       (''Updated password for '' @ title updatedPassword)) s1 of
                               (Throws, s2) \<Rightarrow> (handleServerError ''Failed to update password'', s2)
                             | (Returns l, s2) \<Rightarrow>
                                 (Response 200 (PasswordJson updatedPassword), s2))))))"

definition deletePasswordHandler ::
  "deps \<Rightarrow> int \<Rightarrow> request \<Rightarrow> state \<Rightarrow> response \<times> state" where
  "deletePasswordHandler D now req s =
     (case authenticated D req of
        None \<Rightarrow> (unauthorized, s)
      | Some uid \<Rightarrow>
          (case validId (params_id req) of
             None \<Rightarrow> (Response 400 (Message ''Invalid password ID''), s)
           | Some passwordId \<Rightarrow>
               (case invoke D (DeletePassword passwordId uid)
                             (\<lambda>d. deletePassword d passwordId uid) s of
                  (Throws, s1) \<Rightarrow> (handleServerError ''Failed to delete password'', s1)
                | (Returns success, s1) \<Rightarrow>
                    if \<not> success then (Response 404 (Message ''Password not found''), s1)
                    else (case logActivity D now
                                 (logEntry req uid ''delete_password''
                                    (''Deleted password with id '' @ showInt passwordId)) s1 of
                            (Throws, s2) \<Rightarrow> (handleServerError ''Failed to delete password'', s2)
                          | (Returns l, s2) \<Rightarrow>
                              (Response 200 (Message ''Password deleted successfully''), s2)))))"

definition passwordStatsHandler :: "deps \<Rightarrow> request \<Rightarrow> state \<Rightarrow> response \<times> state" where
  "passwordStatsHandler D req s =
     (case authenticated D req of
        None \<Rightarrow> (unauthorized, s)
      | Some uid \<Rightarrow>
          (case invoke D (GetPasswordStats uid)
                        (\<lambda>d. (getPasswordStats (weakMax D) (strongMin D) d uid, d)) s of
             (Throws, s1) \<Rightarrow> (handleServerError ''Failed to retrieve password statistics'', s1)
           | (Returns st, s1) \<Rightarrow> (Response 200 (StatsJson st), s1)))"

definition securityAlertsHandler :: "deps \<Rightarrow> request \<Rightarrow> state \<Rightarrow> response \<times> state" where
  "securityAlertsHandler D req s =
     (case authenticated D req of
        None \<Rightarrow> (unauthorized, s)
      | Some uid \<Rightarrow>
          (case invoke D (GetSecurityAlertsByUserId uid)
                        (\<lambda>d. (getSecurityAlertsByUserId d uid, d)) s of
             (Throws, s1) \<Rightarrow> (handleServerError ''Failed to retrieve security alerts'', s1)
           | (Returns as, s1) \<Rightarrow> (Response 200 (AlertsJson as), s1)))"

definition resolveAlertHandler :: "deps \<Rightarrow> request \<Rightarrow> state \<Rightarrow> response \<times> state" where
  "resolveAlertHandler D req s =
     (case authenticated D req of
        None \<Rightarrow> (unauthorized, s)
      | Some uid \<Rightarrow>
          (case validId (params_id req) of
             None \<Rightarrow> (Response 400 (Message ''Invalid alert ID''), s)
           | Some alertId \<Rightarrow>
               (case invoke D (ResolveSecurityAlert alertId uid)
                             (\<lambda>d. resolveSecurityAlert d alertId uid) s of
                  (Throws, s1) \<Rightarrow> (handleServerError ''Failed to resolve alert'', s1)
                | (Returns success, s1) \<Rightarrow>
                    if \<not> success then (Response 404 (Message ''Security alert not found''), s1)
                    else (Response 200 (Message ''Alert resolved successfully''), s1))))"

definition activityLogsHandler :: "deps \<Rightarrow> request \<Rightarrow> state \<Rightarrow> response \<times> state" where
  "activityLogsHandler D req s =
     (case authenticated D req of
        None \<Rightarrow> (unauthorized, s)
      | Some uid \<Rightarrow>
          (case invoke D (GetActivityLogsByUserId uid 20)
                        (\<lambda>d. (getActivityLogsByUserId d uid 20, d)) s of
             (Throws, s1) \<Rightarrow> (handleServerError ''Failed to retrieve activity logs'', s1)
           | (Returns logs, s1) \<Rightarrow> (Response 200 (LogsJson logs), s1)))"

definition healthHandler :: "state \<Rightarrow> response \<times> state" where
  "healthHandler s = (Response 200 HealthJson, s)"

text \<open>
  The generator route sits behind \<^verbatim>\<open>isAuthenticated\<close> but does not read the session
  itself.
\<close>

definition generatePasswordHandler :: "deps \<Rightarrow> request \<Rightarrow> state \<Rightarrow> response \<times> state" where
  "generatePasswordHandler D req s =
     (if \<not> isAuthenticated D req then (unauthorized, s)
      else case passwordGeneratorSchema D (body req) of
             Inl message \<Rightarrow> (Response 400 (Message message), s)
           | Inr opts \<Rightarrow>
               (case generatePasswordUtil D opts of
                  Throws \<Rightarrow> (handleServerError ''Failed to generate password'', s)
                | Returns pass \<Rightarrow>
                    (Response 200 (GeneratedJson pass (calculatePasswordStrength D pass)), s)))"

text \<open>The routing table of \<^verbatim>\<open>registerRoutes\<close>.\<close>

datatype endpoint =
    PostAuthLogin
  | PostAuthRegister
  | PostAuthLogout
  | GetAuthMe
  | GetPasswords
  | GetPassword
  | PostPasswords
  | PutPassword
  | DeletePasswordById
  | GetPasswordStatsRoute
  | GetSecurityAlerts
  | PostResolveAlert
  | GetActivityLogs
  | GetHealth
  | PostGeneratePassword

fun registerRoutes ::
  "deps \<Rightarrow> int \<Rightarrow> endpoint \<Rightarrow> request \<Rightarrow> state \<Rightarrow> response \<times> state" where
  "registerRoutes D now PostAuthLogin req s = loginRoute D now req s"
| "registerRoutes D now PostAuthRegister req s = registerHandler D req s"
| "registerRoutes D now PostAuthLogout req s = logoutHandler D req s"
| "registerRoutes D now GetAuthMe req s = meHandler D req s"
| "registerRoutes D now GetPasswords req s = listPasswordsHandler D req s"
| "registerRoutes D now GetPassword req s = getPasswordHandler D req s"
| "registerRoutes D now PostPasswords req s = createPasswordHandler D now req s"
| "registerRoutes D now PutPassword req s = updatePasswordHandler D now req s"
| "registerRoutes D now DeletePasswordById req s = deletePasswordHandler D now req s"
| "registerRoutes D now GetPasswordStatsRoute req s = passwordStatsHandler D req s"
| "registerRoutes D now GetSecurityAlerts req s = securityAlertsHandler D req s"
| "registerRoutes D now PostResolveAlert req s = resolveAlertHandler D req s"
| "registerRoutes D now GetActivityLogs req s = activityLogsHandler D req s"
| "registerRoutes D now GetHealth req s = healthHandler s"
| "registerRoutes D now PostGeneratePassword req s = generatePasswordHandler D req s"

section \<open>Vocabulary of the statements\<close>







text \<open>The request's body fails the schema of the route; routes without a schema never reject.\<close>

fun schemaRejects :: "deps \<Rightarrow> endpoint \<Rightarrow> request \<Rightarrow> bool" where
  "schemaRejects D PostAuthLogin req = isl (loginUserSchema D (body req))"
| "schemaRejects D PostAuthRegister req = isl (insertUserSchema D (body req))"
| "schemaRejects D PostPasswords req = isl (insertPasswordSchema D (body req))"
| "schemaRejects D PutPassword req = isl (updatePasswordSchema D (body req))"
| "schemaRejects D PostGeneratePassword req = isl (passwordGeneratorSchema D (body req))"
| "schemaRejects D ep req = False"




section \<open>Sample collaborators and requests\<close>

text \<open>
  Concrete schemas, a scorer and a verifier to run the routes on: the login schema wants a
  \<^verbatim>\<open>password\<close> string, the verifier accepts one password and throws on any other, the
  scorer gives ten points a character up to 100, and no storage call fails.
\<close>

definition strField :: "string \<Rightarrow> json \<Rightarrow> string option" where
  "strField k b =
     (case b of
        JObj fs \<Rightarrow> (case map_of fs k of Some (JStr v) \<Rightarrow> Some v | _ \<Rightarrow> None)
      | _ \<Rightarrow> None)"

definition sampleDeps :: deps where
  "sampleDeps =
     \<lparr>loginUserSchema = (\<lambda>b. case strField ''password'' b of
                                  Some p \<Rightarrow> Inr () | None \<Rightarrow> Inl ''Password is required''),
      insertUserSchema = (\<lambda>b. case (strField ''email'' b, strField ''password'' b) of
                                  (Some e, Some p) \<Rightarrow> Inr (e, p) | _ \<Rightarrow> Inl ''Invalid input''),
      insertPasswordSchema = (\<lambda>b. case (strField ''title'' b, strField ''encryptedPassword'' b) of
                                  (Some t, Some e) \<Rightarrow> Inr \<lparr>title = t, encryptedPassword = e\<rparr>
                                | _ \<Rightarrow> Inl ''Invalid input''),
      updatePasswordSchema = (\<lambda>b. case b of
                                  JObj fs \<Rightarrow> Inr \<lparr>u_title = strField ''title'' b,
                                                  u_encryptedPassword = strField ''encryptedPassword'' b\<rparr>
                                | _ \<Rightarrow> Inl ''Invalid input''),
      passwordGeneratorSchema = (\<lambda>b. Inl ''Invalid input''),
      calculatePasswordStrength = (\<lambda>p. min 100 (10 * int (length p))),
      generatePasswordUtil = (\<lambda>opts. Throws),
      isValidEmail = (\<lambda>e. CHR ''@'' \<in> set e),
      isStrongPassword = (\<lambda>p. 8 \<le> length p),
      isAuthenticated = (\<lambda>req. session_userId req \<noteq> None),
      login = (\<lambda>req. if strField ''password'' (body req) = Some ''Tr0ub4dor&3!''
                       then Returns (Response 200 (Message ''Login successful''))
                       else Throws),
      register = (\<lambda>req. Returns (Response 201 (Message ''Registered''))),
      logout = (\<lambda>req. Returns (Response 200 (Message ''Logged out''))),
      getCurrentUser = (\<lambda>req. Returns (Response 200 (Message ''user''))),
      storageRaises = (\<lambda>c. False),
      weakMax = 39,
      strongMin = 70\<rparr>"

definition emptyState :: state where
  "emptyState =
     \<lparr>loginAttempts = Map.empty,
      storage = \<lparr>passwords = [], securityAlerts = [], activityLogs = [], nextPasswordId = 1\<rparr>,
      calls = []\<rparr>"

definition sampleRequest :: "int option \<Rightarrow> string \<Rightarrow> json \<Rightarrow> request" where
  "sampleRequest uid ident b =
     \<lparr>x_forwarded_for = None, user_agent = Some ''curl'', req_ip = Some ''203.0.113.7'',
      session_userId = uid, params_id = ident, body = b\<rparr>"

definition wrongLogin :: request where
  "wrongLogin = sampleRequest None [] (JObj [(''password'', JStr ''guess'')])"



definition blockedAt :: "int \<Rightarrow> state" where
  "blockedAt t =
     \<lparr>loginAttempts = [''203.0.113.7'' \<mapsto> \<lparr>count = 5, lastAttempt = t\<rparr>],
      storage = storage emptyState, calls = []\<rparr>"


definition badLogin :: request where
  "badLogin = sampleRequest None [] JNull"

text \<open>
  A vault with one entry and one open alert of user 7, and requests of that user: one that
  creates an entry, one that updates entry 1 with an empty payload.
\<close>

definition vaultState :: state where
  "vaultState =
     \<lparr>loginAttempts = Map.empty,
      storage = \<lparr>passwords = [\<lparr>title = ''mail'', encryptedPassword = ''S3cret!pass'',
                               strength = 100, pw_id = 1, pw_userId = 7\<rparr>],
                 securityAlerts =
                   [\<lparr>al_id = 1, al_userId = 7, al_kind = ''weak'', isResolved = False\<rparr>],
                 activityLogs = [], nextPasswordId = 2\<rparr>,
      calls = []\<rparr>"


definition emptyPayloadUpdate :: request where
  "emptyPayloadUpdate = sampleRequest (Some 7) ''1'' (JObj [(''encryptedPassword'', JStr [])])"

definition logAt :: "int \<Rightarrow> int \<Rightarrow> activityLog" where
  "logAt uid t =
     \<lparr>userId = uid, action = ''create_password'', details = ''Created password for x'',
      ipAddress = ''203.0.113.7'', userAgent = ''curl'', timestamp = t\<rparr>"

definition logsDb :: db where
  "logsDb =
     \<lparr>passwords = [], securityAlerts = [],
      activityLogs = [logAt 7 10, logAt 8 15, logAt 7 30, logAt 7 20], nextPasswordId = 1\<rparr>"

section \<open>Properties of the rate limiter\<close>

lemmas sample_defs =
  sampleRequest_def sampleDeps_def strField_def emptyState_def clientIp_def forwardedOrIp_def

lemmas login_defs =
  loginRoute_def loginRateLimiter_def loginHandler_def setCount_def
  MAX_ATTEMPTS_def BLOCK_TIME_MS_def handleServerError_def Let_def







text \<open>
  C2, as the code has it. For every client with an entry in the table: when the time since
  the entry's last attempt is strictly greater than the block time, the rate limiter sets
  the counter to 0 whatever it was, stamps the entry and lets the request through, so that
  the login route goes on with the handler.
\<close>

theorem expired_block_resets_counter:
  assumes "loginAttempts s (clientIp req) = Some a"
    and "now - lastAttempt a > BLOCK_TIME_MS"
  shows "loginRateLimiter now req s =
           (Next, s\<lparr>loginAttempts :=
                     (loginAttempts s)(clientIp req \<mapsto> \<lparr>count = 0, lastAttempt = now\<rparr>)\<rparr>)
         \<and> loginRoute D now req s =
             loginHandler D req
               (s\<lparr>loginAttempts :=
                    (loginAttempts s)(clientIp req \<mapsto> \<lparr>count = 0, lastAttempt = now\<rparr>)\<rparr>)"
  using assms
  by (cases a) (simp add: loginRoute_def loginRateLimiter_def Let_def MAX_ATTEMPTS_def)

theorem expired_block_resets_counter_witness:
  "loginAttempts (blockedAt 0) (clientIp wrongLogin) = Some \<lparr>count = 5, lastAttempt = 0\<rparr>
   \<and> 900001 - lastAttempt \<lparr>count = 5, lastAttempt = 0\<rparr> > BLOCK_TIME_MS
   \<and> loginRateLimiter 900001 wrongLogin (blockedAt 0) =
       (Next, (blockedAt 0)\<lparr>loginAttempts :=
                [''203.0.113.7'' \<mapsto> \<lparr>count = 0, lastAttempt = 900001\<rparr>]\<rparr>)"
proof -
  have r: "loginAttempts (blockedAt 0) (clientIp wrongLogin) = Some \<lparr>count = 5, lastAttempt = 0\<rparr>"
    by (simp add: blockedAt_def wrongLogin_def sample_defs)
  have e: "900001 - lastAttempt \<lparr>count = 5, lastAttempt = 0\<rparr> > BLOCK_TIME_MS"
    by (simp add: BLOCK_TIME_MS_def)
  from expired_block_resets_counter[OF r e, of sampleDeps] r e show ?thesis
    by (simp add: blockedAt_def wrongLogin_def sample_defs)
qed

text \<open>
  C2, as the claim states it, fails when the elapsed time is exactly the block time: an
  entry with five attempts last stamped at time 0 is still blocked at time 900000 (15
  minutes later); the request is answered 429 and the counter stays at 5.
\<close>

theorem block_not_expired_at_exactly_block_time:
  "loginAttempts (blockedAt 0) (clientIp wrongLogin) = Some \<lparr>count = 5, lastAttempt = 0\<rparr>
   \<and> 900000 - lastAttempt \<lparr>count = 5, lastAttempt = 0\<rparr> \<ge> BLOCK_TIME_MS
   \<and> loginRoute sampleDeps 900000 wrongLogin (blockedAt 0) =
       (Response 429 (Message ''Too many login attempts. Please try again after 15 minutes.''),
        blockedAt 900000)"
  by (simp add: blockedAt_def wrongLogin_def sample_defs login_defs)



text \<open>
  C7. Every login attempt, whether the rate limiter lets it through to the handler or
  rejects it, leaves the client's table entry with \<open>lastAttempt\<close> equal to the current time.
\<close>

theorem lastAttempt_updated_on_every_attempt:
  "\<exists>a. loginAttempts (snd (loginRoute D now req s)) (clientIp req) = Some a
       \<and> lastAttempt a = now"
  by (auto simp: loginRoute_def loginRateLimiter_def loginHandler_def setCount_def Let_def
           split: sum.splits thrown.splits option.splits)

section \<open>Properties of the vault routes\<close>

lemmas handler_defs =
  registerHandler_def logoutHandler_def meHandler_def listPasswordsHandler_def
  getPasswordHandler_def createPasswordHandler_def updatePasswordHandler_def
  deletePasswordHandler_def passwordStatsHandler_def securityAlertsHandler_def
  resolveAlertHandler_def activityLogsHandler_def healthHandler_def generatePasswordHandler_def
  invoke_def delegate_def logActivity_def unauthorized_def

lemmas storage_defs =
  createPassword_def updatePassword_def deletePassword_def createActivityLog_def
  resolveSecurityAlert_def

lemmas eval_defs =
  handler_defs storage_defs authenticated_def sessionUser_def logEntry_def handleServerError_def
  withStrength_def applyUpdate_def getPasswordById_def owned_def validId_def parseInt_def
  isWhiteSpace_def digitValue_def Let_def

subsection \<open>Strength on update\<close>

lemma find_map_update:
  "find (owned pid uid) (map (\<lambda>q. if owned pid uid q then applyUpdate u q else q) ps) =
     map_option (applyUpdate u) (find (owned pid uid) ps)"
  by (induction ps) (auto simp: owned_def applyUpdate_def)

text \<open>
  What a successful update stores. Without a payload among the fields the strength stays;
  with a non-empty payload it is the score of that payload; with an empty payload the
  payload is overwritten and the strength stays what it was.
\<close>

lemma update_strength:
  assumes "authenticated D req = Some uid"
    and "validId (params_id req) = Some pid"
    and "updatePasswordSchema D (body req) = Inr dat"
    and "updatePasswordHandler D now req s = (Response 200 pl, s')"
  shows "\<exists>old p. getPasswordById (storage s) pid uid = Some old
           \<and> getPasswordById (storage s') pid uid = Some p \<and> pl = PasswordJson p
           \<and> (case u_encryptedPassword dat of
                 None \<Rightarrow> encryptedPassword p = encryptedPassword old \<and> strength p = strength old
               | Some e \<Rightarrow> encryptedPassword p = e
                    \<and> strength p = (if e \<noteq> [] then calculatePasswordStrength D e else strength old))"
  using assms
  by (auto simp: updatePasswordHandler_def invoke_def logActivity_def updatePassword_def
        createActivityLog_def handleServerError_def Let_def getPasswordById_def find_map_update
        withStrength_def applyUpdate_def
      split: option.splits thrown.splits if_splits)

text \<open>
  C4 fails on the code. The owner of entry 1 (payload \<^verbatim>\<open>S3cret!pass\<close>, strength 100) sends
  an update whose \<^verbatim>\<open>encryptedPassword\<close> field is the empty string. The field is among the
  updated fields and the schema lets it through, but the handler's test
  \<^verbatim>\<open>if (result.data.encryptedPassword)\<close> is false for the empty string: the entry is stored
  with the empty payload and the old strength 100, where the score of the new payload is 0.
\<close>

theorem update_with_empty_payload_keeps_old_strength:
  "updatePasswordSchema sampleDeps (body emptyPayloadUpdate) =
     Inr \<lparr>u_title = None, u_encryptedPassword = Some []\<rparr>
   \<and> getPasswordById (storage vaultState) 1 7 =
       Some \<lparr>title = ''mail'', encryptedPassword = ''S3cret!pass'', strength = 100,
             pw_id = 1, pw_userId = 7\<rparr>
   \<and> fst (registerRoutes sampleDeps 50 PutPassword emptyPayloadUpdate vaultState) =
       Response 200 (PasswordJson \<lparr>title = ''mail'', encryptedPassword = [], strength = 100,
                                   pw_id = 1, pw_userId = 7\<rparr>)
   \<and> getPasswordById
         (storage (snd (registerRoutes sampleDeps 50 PutPassword emptyPayloadUpdate vaultState)))
         1 7 =
       Some \<lparr>title = ''mail'', encryptedPassword = [], strength = 100, pw_id = 1, pw_userId = 7\<rparr>
   \<and> calculatePasswordStrength sampleDeps [] = 0"
  by (simp add: emptyPayloadUpdate_def vaultState_def sample_defs eval_defs)

subsection \<open>The audit log\<close>






subsection \<open>Validation failures\<close>

lemma invalid_body_frame:
  "schemaRejects D ep req \<Longrightarrow>
   case registerRoutes D now ep req s of
     (r, s') \<Rightarrow> storage s' = storage s \<and> calls s' = calls s \<and> status r \<in> {400, 401, 429}
        \<and> (if ep = PostAuthLogin then s' = snd (loginRateLimiter now req s) else s' = s)"
  by (cases ep)
     (auto simp: handler_defs authenticated_def loginRoute_def loginHandler_def
        loginRateLimiter_def Let_def
      split: option.split sum.split thrown.split prod.split)

text \<open>
  C6, as the code has it. A request whose body fails the schema of its route is answered
  with status 400 (or 401 or 429, when it is turned away before validation); the vault
  entries, the audit log and the alerts are what they were, and neither a storage operation
  nor an authentication function is called. On every route but login the whole state is
  unchanged. On the login route the rate limiter has run before validation: the state is
  the one the rate limiter leaves, with the client's entry created or stamped (and its
  counter reset when the block time has passed).
\<close>

theorem invalid_body_changes_only_rate_limit_record:
  assumes "schemaRejects D ep req"
    and "registerRoutes D now ep req s = (r, s')"
  shows "storage s' = storage s \<and> calls s' = calls s \<and> status r \<in> {400, 401, 429}
         \<and> (if ep = PostAuthLogin then s' = snd (loginRateLimiter now req s) else s' = s)"
  using invalid_body_frame[OF assms(1), where now=now and s=s] assms(2) by simp

theorem invalid_body_changes_only_rate_limit_record_witness:
  "schemaRejects sampleDeps PostPasswords (sampleRequest (Some 7) [] JNull)
   \<and> registerRoutes sampleDeps 50 PostPasswords (sampleRequest (Some 7) [] JNull) vaultState =
       (Response 400 (Message ''Invalid input''), vaultState)"
proof -
  have h: "schemaRejects sampleDeps PostPasswords (sampleRequest (Some 7) [] JNull)"
    by (simp add: sample_defs)
  have e: "registerRoutes sampleDeps 50 PostPasswords (sampleRequest (Some 7) [] JNull) vaultState =
       (Response 400 (Message ''Invalid input''), vaultState)"
    by (simp add: vaultState_def sample_defs eval_defs)
  from invalid_body_changes_only_rate_limit_record[OF h e] h e show ?thesis by simp
qed

text \<open>
  C6, as the claim states it, fails on the login route: a login request with an invalid body
  from a client the table does not know is answered 400, and the table has an entry for the
  client afterwards.
\<close>

theorem invalid_login_body_creates_rate_limit_record:
  "schemaRejects sampleDeps PostAuthLogin badLogin
   \<and> loginAttempts emptyState ''203.0.113.7'' = None
   \<and> registerRoutes sampleDeps 0 PostAuthLogin badLogin emptyState =
       (Response 400 (Message ''Password is required''),
        emptyState\<lparr>loginAttempts := [''203.0.113.7'' \<mapsto> \<lparr>count = 0, lastAttempt = 0\<rparr>]\<rparr>)"
  by (simp add: badLogin_def sample_defs login_defs)

subsection \<open>Invalid identifiers\<close>




subsection \<open>Routes that leave the vault and the audit log alone\<close>




subsection \<open>Retrieval of the audit log\<close>

lemma newest_first_sort:
  "sorted_wrt (\<lambda>a b. timestamp b \<le> timestamp a) (rev (sort_key timestamp xs))"
proof -
  have "sorted (map timestamp (sort_key timestamp xs))" by (rule sorted_sort_key)
  then show ?thesis by (simp add: sorted_wrt_rev sorted_wrt_map)
qed

text \<open>
  C8. The retrieval operation, called with a user and a limit, returns entries of that
  user only, taken from the audit log, most recent first, at most \<open>limit\<close> of them (all of
  the user's when there are fewer), and an entry of the user it leaves out is no more
  recent than any it returns. The caller of the operation is the activity-log route, which
  supplies the limit 20 and the session's user and answers with what the operation returns.
\<close>

theorem activity_logs_newest_first_within_limit:
  assumes "getActivityLogsByUserId d uid limit = logs"
  shows "length logs \<le> nat limit
     \<and> length logs = min (nat limit) (length (filter (\<lambda>l. userId l = uid) (activityLogs d)))
     \<and> list_all (\<lambda>l. userId l = uid) logs
     \<and> set logs \<subseteq> set (activityLogs d)
     \<and> sorted_wrt (\<lambda>a b. timestamp b \<le> timestamp a) logs
     \<and> (\<forall>l k. l \<in> set (activityLogs d) \<and> userId l = uid \<and> l \<notin> set logs \<and> k \<in> set logs
            \<longrightarrow> timestamp l \<le> timestamp k)
     \<and> (\<forall>D req s. authenticated D req = Some uid
              \<and> \<not> storageRaises D (GetActivityLogsByUserId uid 20)
            \<longrightarrow> fst (activityLogsHandler D req s) =
                  Response 200 (LogsJson (getActivityLogsByUserId (storage s) uid 20)))"
proof -
  define full where
    "full = rev (sort_key timestamp (filter (\<lambda>l. userId l = uid) (activityLogs d)))"
  have logs: "logs = take (nat limit) full"
    using assms by (simp add: getActivityLogsByUserId_def full_def)
  have sf: "sorted_wrt (\<lambda>a b. timestamp b \<le> timestamp a) full"
    unfolding full_def by (rule newest_first_sort)
  have setf: "set full = {l \<in> set (activityLogs d). userId l = uid}"
    by (auto simp: full_def)
  have lenf: "length full = length (filter (\<lambda>l. userId l = uid) (activityLogs d))"
    by (simp add: full_def)
  have split: "full = logs @ drop (nat limit) full" by (simp add: logs)
  have "sorted_wrt (\<lambda>a b. timestamp b \<le> timestamp a) (logs @ drop (nat limit) full)"
    using sf split by simp
  then have s1: "sorted_wrt (\<lambda>a b. timestamp b \<le> timestamp a) logs"
    and cross: "\<forall>k\<in>set logs. \<forall>l\<in>set (drop (nat limit) full). timestamp l \<le> timestamp k"
    by (simp_all add: sorted_wrt_append)
  have sub: "set logs \<subseteq> set full" unfolding logs by (rule set_take_subset)
  have older: "timestamp l \<le> timestamp k"
    if "l \<in> set (activityLogs d)" "userId l = uid" "l \<notin> set logs" "k \<in> set logs" for l k
  proof -
    from that setf have "l \<in> set full" by simp
    then have "l \<in> set (logs @ drop (nat limit) full)" using split by simp
    with that(3) have "l \<in> set (drop (nat limit) full)" by simp
    with cross that(4) show ?thesis by blast
  qed
  have route: "fst (activityLogsHandler D req s) =
                  Response 200 (LogsJson (getActivityLogsByUserId (storage s) uid 20))"
    if "authenticated D req = Some uid" "\<not> storageRaises D (GetActivityLogsByUserId uid 20)"
    for D req s
    using that by (simp add: activityLogsHandler_def invoke_def Let_def)
  have "length logs \<le> nat limit" by (simp add: logs)
  moreover have "length logs = min (nat limit) (length (filter (\<lambda>l. userId l = uid) (activityLogs d)))"
    using lenf by (simp add: logs min.commute)
  moreover have "list_all (\<lambda>l. userId l = uid) logs"
    using sub setf by (auto simp: list_all_iff)
  moreover have "set logs \<subseteq> set (activityLogs d)" using sub setf by auto
  ultimately show ?thesis using s1 older route by blast
qed

theorem activity_logs_newest_first_within_limit_witness:
  "getActivityLogsByUserId logsDb 7 2 = [logAt 7 30, logAt 7 20]
   \<and> length [logAt 7 30, logAt 7 20] \<le> nat 2
   \<and> sorted_wrt (\<lambda>a b. timestamp b \<le> timestamp a) [logAt 7 30, logAt 7 20]
   \<and> fst (activityLogsHandler sampleDeps (sampleRequest (Some 7) [] JNull)
            (vaultState\<lparr>storage := logsDb\<rparr>)) =
       Response 200 (LogsJson [logAt 7 30, logAt 7 20, logAt 7 10])"
proof -
  have g: "getActivityLogsByUserId logsDb 7 2 = [logAt 7 30, logAt 7 20]"
    by (simp add: getActivityLogsByUserId_def logsDb_def logAt_def)
  have a: "authenticated sampleDeps (sampleRequest (Some 7) [] JNull) = Some 7"
    "\<not> storageRaises sampleDeps (GetActivityLogsByUserId 7 20)"
    by (simp_all add: sample_defs authenticated_def sessionUser_def)
  have f: "getActivityLogsByUserId logsDb 7 20 = [logAt 7 30, logAt 7 20, logAt 7 10]"
    by (simp add: getActivityLogsByUserId_def logsDb_def logAt_def)
  from activity_logs_newest_first_within_limit[OF g] a f g show ?thesis by simp
qed

end
